theory Spec2Isabelle
  imports Main
begin

section \<open>Time\<close>

text \<open>
  A naive UTC \<^verbatim>\<open>datetime\<close> is the number of microseconds since the epoch, a
  \<^verbatim>\<open>timedelta\<close> a number of microseconds. \<^verbatim>\<open>timedelta(days=d)\<close>,
  \<^verbatim>\<open>timedelta(seconds=s)\<close> and the \<^verbatim>\<open>.days\<close> attribute (floor division, as
  Python normalises a timedelta) are written out.
\<close>

type_synonym datetime = int
type_synonym timedelta = int

definition timedelta_days :: "int \<Rightarrow> timedelta" where
  "timedelta_days d = d * 86400000000"

definition timedelta_seconds :: "int \<Rightarrow> timedelta" where
  "timedelta_seconds s = s * 1000000"

definition days :: "timedelta \<Rightarrow> int" where
  "days delta = delta div 86400000000"

section \<open>app/models/user.py\<close>

datatype UserType = TRIAL | MONTHLY | YEARLY | LIFETIME

datatype UserStatus = ACTIVE | INACTIVE | SUSPENDED | EXPIRED

text \<open>
  One row of the table \<^verbatim>\<open>users\<close>. A nullable column is an option; the primary key
  \<^verbatim>\<open>id\<close> is the field \<open>id'\<close>.
\<close>

record User =
  id' :: int
  username :: string
  email :: "string option"
  hashed_password :: "string option"
  user_type :: UserType
  status :: UserStatus
  device_id :: "string option"
  user_agent :: "string option"
  ip_address :: "string option"
  oauth_provider :: "string option"
  oauth_provider_id :: "string option"
  oauth_email_verified :: "bool option"
  trial_start_date :: "datetime option"
  trial_end_date :: "datetime option"
  subscription_start_date :: "datetime option"
  subscription_end_date :: "datetime option"
  max_follows :: int
  current_follows :: int
  email_notifications :: bool
  sms_notifications :: bool
  push_notifications :: bool
  created_at :: "datetime option"
  updated_at :: "datetime option"
  last_login_at :: "datetime option"

text \<open>
  The three properties of \<^verbatim>\<open>User\<close>. \<^verbatim>\<open>datetime.utcnow()\<close> is the argument
  \<open>now\<close>; \<^verbatim>\<open>not self.trial_end_date\<close> holds exactly for \<^verbatim>\<open>None\<close>, a datetime
  being always truthy.
\<close>

definition is_trial_expired :: "User \<Rightarrow> datetime \<Rightarrow> bool" where
  "is_trial_expired self now =
     (if user_type self \<noteq> TRIAL then False
      else case trial_end_date self of
             None \<Rightarrow> False
           | Some trial_end \<Rightarrow> now > trial_end)"

definition is_subscription_active :: "User \<Rightarrow> datetime \<Rightarrow> bool" where
  "is_subscription_active self now =
     (if user_type self = TRIAL then \<not> is_trial_expired self now
      else if user_type self = LIFETIME then True
      else case subscription_end_date self of
             None \<Rightarrow> False
           | Some subscription_end \<Rightarrow> now \<le> subscription_end)"

definition can_add_follows :: "User \<Rightarrow> bool" where
  "can_add_follows self = (current_follows self < max_follows self)"

section \<open>app/api/v1/endpoints/users.py\<close>

record usage_stats =
  follows_count :: int
  max_follows_stat :: int
  notifications_today :: int
  last_login :: "datetime option"
  account_age_days :: int

definition get_usage_stats :: "User \<Rightarrow> usage_stats" where
  "get_usage_stats current_user =
     \<lparr> follows_count = current_follows current_user,
       max_follows_stat = max_follows current_user,
       notifications_today = 0,
       last_login = last_login_at current_user,
       account_age_days =
         (case created_at current_user of
            Some c \<Rightarrow> days (c - c)
          | None \<Rightarrow> 0) \<rparr>"

section \<open>Python values and exceptions\<close>

text \<open>
  The exceptions that the modelled code can raise. \<open>HTTPException\<close> carries the status
  code; the others are the Python (and SQLAlchemy) exceptions of the same name.
\<close>

datatype error =
    AttributeError
  | UnboundLocalError
  | ValueError
  | OverflowError
  | IntegrityError
  | OperationalError
  | HTTPException nat

datatype pyval = PyNone | PyInt int | PyStr string

definition truthy :: "pyval \<Rightarrow> bool" where
  "truthy v = (case v of PyNone \<Rightarrow> False | PyInt n \<Rightarrow> n \<noteq> 0 | PyStr s \<Rightarrow> s \<noteq> [])"

text \<open>A \<^verbatim>\<open>bool\<close> has no attribute \<^verbatim>\<open>get\<close>: looking it up raises.\<close>

definition bool_getattr_get :: "bool \<Rightarrow> error + (string \<Rightarrow> pyval)" where
  "bool_getattr_get payload = Inl AttributeError"

text \<open>\<^verbatim>\<open>int(v)\<close>, for an integer and for a string of plain decimal digits.\<close>

definition digit_val :: "char \<Rightarrow> int" where
  "digit_val c = int (of_char c) - 48"

definition py_int :: "pyval \<Rightarrow> error + int" where
  "py_int v =
     (case v of
        PyInt n \<Rightarrow> Inr n
      | PyStr s \<Rightarrow>
          (if s \<noteq> [] \<and> list_all (\<lambda>c. c \<in> set ''0123456789'') s
           then Inr (foldl (\<lambda>acc c. 10 * acc + digit_val c) 0 s)
           else Inl ValueError)
      | PyNone \<Rightarrow> Inl ValueError)"

section \<open>app/core/config.py\<close>

text \<open>
  The fields of \<^verbatim>\<open>Settings\<close> that the modelled code reads. Their values come from the
  environment, with the defaults of the class (30, 7, 3 and 5), so they are fields of a
  record. The class declares \<^verbatim>\<open>REFRESH_TOKEN_EXPIRE_DAYS\<close> and no
  \<^verbatim>\<open>REFRESH_TOKEN_EXPIRE_MINUTES\<close>: reading the latter raises.
\<close>

record Settings =
  SECRET_KEY :: string
  ACCESS_TOKEN_EXPIRE_MINUTES :: int
  REFRESH_TOKEN_EXPIRE_DAYS :: int
  TRIAL_PERIOD_DAYS :: int
  TRIAL_MAX_FOLLOWS :: int

definition default_settings :: Settings where
  "default_settings =
     \<lparr> SECRET_KEY = ''your-secret-key-here-change-in-production'',
       ACCESS_TOKEN_EXPIRE_MINUTES = 30,
       REFRESH_TOKEN_EXPIRE_DAYS = 7,
       TRIAL_PERIOD_DAYS = 3,
       TRIAL_MAX_FOLLOWS = 5 \<rparr>"

definition REFRESH_TOKEN_EXPIRE_MINUTES :: "Settings \<Rightarrow> error + int" where
  "REFRESH_TOKEN_EXPIRE_MINUTES settings = Inl AttributeError"

section \<open>app/core/security.py\<close>

text \<open>
  Modelled from the spec: the module \<^verbatim>\<open>app.core.security\<close> is imported by the
  sources and is not among them. Its functions are the fields of a record that every
  operation takes as a parameter: \<open>hash(password) -> hash\<close>,
  \<open>verify(password, hash) -> bool\<close> (which may raise, and receives the nullable
  column \<^verbatim>\<open>hashed_password\<close>), and the two token issuers
  \<open>issue_access_token(user_id, ttl) -> token\<close>,
  \<open>issue_refresh_token(user_id, ttl) -> token\<close>.
\<close>

record Security =
  get_password_hash :: "string \<Rightarrow> string"
  verify_password :: "string \<Rightarrow> string option \<Rightarrow> error + bool"
  create_access_token :: "int \<Rightarrow> timedelta \<Rightarrow> string"
  create_refresh_token :: "int \<Rightarrow> timedelta \<Rightarrow> string"

section \<open>app/models/notification.py\<close>

datatype NotificationType = TWITTER | WALLET | BLACKROCK | SYSTEM

datatype NotificationStatus = UNREAD | READ | ARCHIVED

datatype NotificationPriority = LOW | MEDIUM | HIGH | URGENT

text \<open>
  One row of the table \<^verbatim>\<open>notifications\<close>; the columns \<^verbatim>\<open>id\<close>,
  \<^verbatim>\<open>user_id\<close>, \<^verbatim>\<open>type\<close>, \<^verbatim>\<open>status\<close> and \<^verbatim>\<open>created_at\<close> carry the
  prefix \<open>n_\<close>.
\<close>

record Notification =
  n_id :: int
  n_user_id :: int
  title :: string
  content :: string
  n_type :: NotificationType
  priority :: "NotificationPriority option"
  n_status :: "NotificationStatus option"
  related_id :: "string option"
  related_data :: "string option"
  n_created_at :: "datetime option"
  read_at :: "datetime option"

section \<open>The world outside the process\<close>

text \<open>
  The JSON document that \<^verbatim>\<open>store_verification_code\<close> writes to Redis, with its keys
  \<^verbatim>\<open>code\<close>, \<^verbatim>\<open>created_at\<close> and \<^verbatim>\<open>expires_at\<close>.
\<close>

record VerificationData =
  vc_code :: string
  vc_created_at :: datetime
  vc_expires_at :: datetime

text \<open>
  The state that the operations read and write:
  \<^item> \<open>users\<close>, \<open>notifications\<close>: the two tables, in insertion order, and \<open>users_seq\<close>,
    the last primary key handed out for \<open>users\<close>;
  \<^item> \<open>redis\<close>: each key with its value and the instant at which the server drops it;
  \<^item> \<open>clock\<close>, \<open>ticks\<close>: the successive readings of the time (by
    \<^verbatim>\<open>datetime.utcnow()\<close>, by the database's \<^verbatim>\<open>now()\<close>, by the Redis server) and
    the number of readings taken so far. Two readings need not be equal, nor ordered;
  \<^item> \<open>rand\<close>, \<open>draws\<close>: the successive random numbers and how many were drawn.
\<close>

record World =
  users :: "User list"
  users_seq :: int
  notifications :: "Notification list"
  redis :: "string \<rightharpoonup> VerificationData \<times> datetime"
  clock :: "nat \<Rightarrow> datetime"
  ticks :: nat
  rand :: "nat \<Rightarrow> nat"
  draws :: nat

definition utcnow :: "World \<Rightarrow> datetime \<times> World" where
  "utcnow w = (clock w (ticks w), w\<lparr>ticks := Suc (ticks w)\<rparr>)"

text \<open>\<^verbatim>\<open>random.choices(population, k=k)\<close>, joined into a string.\<close>

definition random_choices :: "string \<Rightarrow> nat \<Rightarrow> World \<Rightarrow> string \<times> World" where
  "random_choices population k w =
     (map (\<lambda>j. population ! (rand w (draws w + j) mod length population)) [0..<k],
      w\<lparr>draws := draws w + k\<rparr>)"

definition ascii_lowercase :: string where
  "ascii_lowercase = ''abcdefghijklmnopqrstuvwxyz''"

definition ascii_uppercase :: string where
  "ascii_uppercase = ''ABCDEFGHIJKLMNOPQRSTUVWXYZ''"

definition digits :: string where
  "digits = ''0123456789''"

definition punctuation :: string where
  "punctuation = [CHR 0x21, CHR 0x22, CHR 0x23, CHR 0x24, CHR 0x25, CHR 0x26, CHR 0x27,
     CHR 0x28, CHR 0x29, CHR 0x2A, CHR 0x2B, CHR 0x2C, CHR 0x2D, CHR 0x2E, CHR 0x2F,
     CHR 0x3A, CHR 0x3B, CHR 0x3C, CHR 0x3D, CHR 0x3E, CHR 0x3F, CHR 0x40,
     CHR 0x5B, CHR 0x5C, CHR 0x5D, CHR 0x5E, CHR 0x5F, CHR 0x60,
     CHR 0x7B, CHR 0x7C, CHR 0x7D, CHR 0x7E]"


section \<open>The session: queries, INSERT and UPDATE\<close>

text \<open>
  \<^verbatim>\<open>db.query(User).filter(...).first()\<close> is the first row that the engine reaches
  among those that satisfy the filter. The queries of \<^verbatim>\<open>get\<close>, \<^verbatim>\<open>get_by_email\<close>,
  \<^verbatim>\<open>get_by_username\<close> and \<^verbatim>\<open>get_by_device_id\<close> filter on one unique column, and
  that of \<^verbatim>\<open>get_by_oauth_provider\<close> on two columns without an index, which the
  engine scans in the order of the keys: for these, the row is the first one of the
  table, in insertion order, that satisfies the filter. The query of
  \<^verbatim>\<open>authenticate\<close> is another matter, treated there. Comparing a column with
  \<^verbatim>\<open>None\<close> is \<^verbatim>\<open>IS NULL\<close>, which equality on options gives.

  \<^verbatim>\<open>db.add(obj); db.commit(); db.refresh(obj)\<close> on a new object is an INSERT. The table
  declares \<^verbatim>\<open>username\<close> and \<^verbatim>\<open>email\<close> unique and not null and \<^verbatim>\<open>device_id\<close>
  unique: the commit of a row that breaks one of these raises \<^verbatim>\<open>IntegrityError\<close>.
  Otherwise the row receives the next primary key. A column that has a default and is
  \<^verbatim>\<open>None\<close> on the object is left out of the statement and receives the default:
  \<^verbatim>\<open>False\<close> for \<^verbatim>\<open>oauth_email_verified\<close>, the server's \<^verbatim>\<open>now()\<close> for
  \<^verbatim>\<open>trial_start_date\<close>, \<^verbatim>\<open>created_at\<close> and \<^verbatim>\<open>updated_at\<close>.
\<close>

definition or_default :: "'a option \<Rightarrow> 'a \<Rightarrow> 'a option" where
  "or_default v d = (case v of None \<Rightarrow> Some d | Some x \<Rightarrow> Some x)"

definition insert_user :: "World \<Rightarrow> User \<Rightarrow> (error + User) \<times> World" where
  "insert_user db db_obj =
     (if email db_obj = None
         \<or> find (\<lambda>u. username u = username db_obj) (users db) \<noteq> None
         \<or> find (\<lambda>u. email u = email db_obj) (users db) \<noteq> None
         \<or> (device_id db_obj \<noteq> None
             \<and> find (\<lambda>u. device_id u = device_id db_obj) (users db) \<noteq> None)
      then (Inl IntegrityError, db)
      else
        let (t, db1) = utcnow db;
            row = db_obj\<lparr>id' := users_seq db1 + 1,
                         oauth_email_verified :=
                           or_default (oauth_email_verified db_obj) False,
                         trial_start_date := or_default (trial_start_date db_obj) t,
                         created_at := or_default (created_at db_obj) t,
                         updated_at := or_default (updated_at db_obj) t\<rparr>
        in (Inr row, db1\<lparr>users := users db1 @ [row], users_seq := users_seq db1 + 1\<rparr>))"

text \<open>
  The same three calls on a loaded object \<open>old\<close> whose attributes were set to those of
  \<open>new\<close> are an UPDATE of the row with that primary key. Without a net change nothing is
  written. When the statement does not set \<^verbatim>\<open>updated_at\<close>, the column's
  \<^verbatim>\<open>onupdate=func.now()\<close> does.
\<close>

definition update_user_row :: "World \<Rightarrow> User \<Rightarrow> User \<Rightarrow> User \<times> World" where
  "update_user_row db old new =
     (if new = old then (new, db)
      else
        let (row, db1) =
              (if updated_at new \<noteq> updated_at old then (new, db)
               else let (t, db') = utcnow db in (new\<lparr>updated_at := Some t\<rparr>, db'))
        in (row, db1\<lparr>users := map (\<lambda>u. if id' u = id' old then row else u) (users db1)\<rparr>))"

section \<open>app/crud/crud_user.py\<close>

text \<open>
  The argument \<^verbatim>\<open>obj_in\<close> of \<^verbatim>\<open>create_user\<close>: the endpoints pass either a
  \<^verbatim>\<open>UserRegister\<close> (username, email, password, verification code) or a \<^verbatim>\<open>dict\<close>.
\<close>

datatype obj_in =
    UserRegister string string string string
  | PyDict "(string \<times> string option) list"

text \<open>The dictionary \<^verbatim>\<open>user_info\<close> that \<^verbatim>\<open>OAuthService\<close> builds, by its keys.\<close>

record OAuthInfo =
  info_provider :: "string option"
  info_provider_id :: "string option"
  info_email :: "string option"
  info_email_verified :: "bool option"

definition get :: "World \<Rightarrow> int \<Rightarrow> User option" where
  "get db i = find (\<lambda>u. id' u = i) (users db)"

definition get_by_email :: "World \<Rightarrow> string option \<Rightarrow> User option" where
  "get_by_email db e = find (\<lambda>u. email u = e) (users db)"

definition get_by_username :: "World \<Rightarrow> string \<Rightarrow> User option" where
  "get_by_username db n = find (\<lambda>u. username u = n) (users db)"

definition get_by_device_id :: "World \<Rightarrow> string option \<Rightarrow> User option" where
  "get_by_device_id db d = find (\<lambda>u. device_id u = d) (users db)"

text \<open>
  \<^verbatim>\<open>create_user\<close> reads \<^verbatim>\<open>obj_in.password\<close> first: on a \<^verbatim>\<open>dict\<close>, which has keys
  and no such attribute, that raises. The four \<^verbatim>\<open>datetime.utcnow()\<close> of the
  constructor call are four readings of the clock, in the order of the keyword arguments.
  The columns that the constructor does not name take their defaults.
\<close>

fun create_user :: "Security \<Rightarrow> Settings \<Rightarrow> obj_in \<Rightarrow> World \<Rightarrow> (error + User) \<times> World" where
  "create_user sec settings (PyDict d) db = (Inl AttributeError, db)"
| "create_user sec settings (UserRegister uname mail password code) db =
     (let hashed = get_password_hash sec password;
          (t1, db1) = utcnow db;
          (t2, db2) = utcnow db1;
          (t3, db3) = utcnow db2;
          (t4, db4) = utcnow db3;
          db_obj =
            \<lparr> id' = 0, username = uname, email = Some mail,
              hashed_password = Some hashed, user_type = TRIAL, status = ACTIVE,
              device_id = None, user_agent = None, ip_address = None,
              oauth_provider = None, oauth_provider_id = None,
              oauth_email_verified = Some False,
              trial_start_date = Some t1,
              trial_end_date = Some (t2 + timedelta_days (TRIAL_PERIOD_DAYS settings)),
              subscription_start_date = None, subscription_end_date = None,
              max_follows = TRIAL_MAX_FOLLOWS settings, current_follows = 0,
              email_notifications = True, sms_notifications = False,
              push_notifications = True,
              created_at = Some t3, updated_at = None, last_login_at = Some t4 \<rparr>
      in insert_user db4 db_obj)"



definition update_last_login :: "World \<Rightarrow> int \<Rightarrow> User option \<times> World" where
  "update_last_login db user_id =
     (case get db user_id of
        None \<Rightarrow> (None, db)
      | Some user \<Rightarrow>
          let (t, db1) = utcnow db;
              (row, db2) = update_user_row db1 user (user\<lparr>last_login_at := Some t\<rparr>)
          in (Some row, db2))"

definition set_trial_period :: "Settings \<Rightarrow> World \<Rightarrow> int \<Rightarrow> int \<Rightarrow> User option \<times> World" where
  "set_trial_period settings db user_id ndays =
     (case get db user_id of
        None \<Rightarrow> (None, db)
      | Some user \<Rightarrow>
          let (t1, db1) = utcnow db;
              (t2, db2) = utcnow db1;
              (row, db3) = update_user_row db2 user
                 (user\<lparr>trial_start_date := Some t1,
                       trial_end_date := Some (t2 + timedelta_days ndays),
                       user_type := TRIAL,
                       max_follows := TRIAL_MAX_FOLLOWS settings\<rparr>)
          in (Some row, db3))"

text \<open>
  \<^verbatim>\<open>generate_unique_username\<close> loops until a drawn name is free; it need not return,
  and \<open>None\<close> is that outcome.
\<close>

partial_function (option) generate_unique_username :: "World \<Rightarrow> (string \<times> World) option" where
  "generate_unique_username db =
     (case random_choices (ascii_lowercase @ digits) 8 db of
        (suffix, db1) \<Rightarrow>
          if get_by_username db1 (''user_'' @ suffix) = None
          then Some (''user_'' @ suffix, db1)
          else generate_unique_username db1)"

declare generate_unique_username.simps [code]

definition generate_random_password :: "World \<Rightarrow> string \<times> World" where
  "generate_random_password w =
     random_choices (ascii_lowercase @ ascii_uppercase @ digits @ punctuation) 12 w"

definition get_by_oauth_provider ::
  "World \<Rightarrow> string option \<Rightarrow> string option \<Rightarrow> User option" where
  "get_by_oauth_provider db provider provider_id =
     find (\<lambda>u. oauth_provider u = provider \<and> oauth_provider_id u = provider_id) (users db)"

text \<open>
  \<^verbatim>\<open>create_oauth_user\<close> passes the identity's \<^verbatim>\<open>email_verified\<close> on; when that is
  \<^verbatim>\<open>None\<close>, the INSERT stores the column's default.
\<close>

definition create_oauth_user ::
  "Settings \<Rightarrow> World \<Rightarrow> OAuthInfo \<Rightarrow> ((error + User) \<times> World) option" where
  "create_oauth_user settings db oauth_info =
     (case generate_unique_username db of
        None \<Rightarrow> None
      | Some (uname, db0) \<Rightarrow>
          Some
            (let (t1, db1) = utcnow db0;
                 (t2, db2) = utcnow db1;
                 (t3, db3) = utcnow db2;
                 (t4, db4) = utcnow db3;
                 db_obj =
                   \<lparr> id' = 0, username = uname, email = info_email oauth_info,
                     hashed_password = None, user_type = TRIAL, status = ACTIVE,
                     device_id = None, user_agent = None, ip_address = None,
                     oauth_provider = info_provider oauth_info,
                     oauth_provider_id = info_provider_id oauth_info,
                     oauth_email_verified = info_email_verified oauth_info,
                     trial_start_date = Some t1,
                     trial_end_date =
                       Some (t2 + timedelta_days (TRIAL_PERIOD_DAYS settings)),
                     subscription_start_date = None, subscription_end_date = None,
                     max_follows = TRIAL_MAX_FOLLOWS settings, current_follows = 0,
                     email_notifications = True, sms_notifications = False,
                     push_notifications = True,
                     created_at = Some t3, updated_at = None, last_login_at = Some t4 \<rparr>
             in insert_user db4 db_obj))"

definition link_oauth_account :: "World \<Rightarrow> User \<Rightarrow> OAuthInfo \<Rightarrow> User \<times> World" where
  "link_oauth_account db user oauth_info =
     (let (t, db1) = utcnow db
      in update_user_row db1 user
           (user\<lparr>oauth_provider := info_provider oauth_info,
                 oauth_provider_id := info_provider_id oauth_info,
                 oauth_email_verified := info_email_verified oauth_info,
                 updated_at := Some t\<rparr>))"

text \<open>
  \<^verbatim>\<open>verify_refresh_token\<close> passes the token and the signing secret to the password
  verifier and then calls \<^verbatim>\<open>.get("sub")\<close> on its result; every exception inside the
  \<^verbatim>\<open>try\<close> returns \<^verbatim>\<open>None\<close>.
\<close>

definition verify_refresh_token :: "Security \<Rightarrow> Settings \<Rightarrow> string \<Rightarrow> int option" where
  "verify_refresh_token sec settings refresh_token =
     (case verify_password sec refresh_token (Some (SECRET_KEY settings)) of
        Inl e \<Rightarrow> None
      | Inr payload \<Rightarrow>
          (case bool_getattr_get payload of
             Inl e \<Rightarrow> None
           | Inr payload_get \<Rightarrow>
               let user_id = payload_get ''sub''
               in if truthy user_id
                  then (case py_int user_id of Inl e \<Rightarrow> None | Inr n \<Rightarrow> Some n)
                  else None))"


section \<open>app/core/email.py\<close>

text \<open>
  \<^verbatim>\<open>SETEX key ttl value\<close> keeps the value until \<open>ttl\<close> seconds after the server's time
  at the call; \<^verbatim>\<open>GET\<close> returns nothing from then on. The JSON encoding and the ISO
  format of the dates are inverse to their decoding, so the document is stored as it is.
\<close>

definition redis_setex :: "string \<Rightarrow> int \<Rightarrow> VerificationData \<Rightarrow> World \<Rightarrow> World" where
  "redis_setex key ttl v w =
     (let (t, w1) = utcnow w
      in w1\<lparr>redis := (redis w1)(key \<mapsto> (v, t + timedelta_seconds ttl))\<rparr>)"

definition redis_get :: "string \<Rightarrow> World \<Rightarrow> VerificationData option \<times> World" where
  "redis_get key w =
     (let (t, w1) = utcnow w
      in case redis w1 key of
           None \<Rightarrow> (None, w1)
         | Some (v, dropped_at) \<Rightarrow> if t < dropped_at then (Some v, w1) else (None, w1))"

definition redis_delete :: "string \<Rightarrow> World \<Rightarrow> World" where
  "redis_delete key w = w\<lparr>redis := (redis w)(key := None)\<rparr>"

definition generate_verification_code :: "World \<Rightarrow> string \<times> World" where
  "generate_verification_code w = random_choices digits 6 w"

definition store_verification_code :: "string \<Rightarrow> string \<Rightarrow> int \<Rightarrow> World \<Rightarrow> bool \<times> World" where
  "store_verification_code mail code expires_in w =
     (let key = ''verification_code:'' @ mail;
          (t1, w1) = utcnow w;
          (t2, w2) = utcnow w1;
          data = \<lparr> vc_code = code, vc_created_at = t1,
                   vc_expires_at = t2 + timedelta_seconds expires_in \<rparr>
      in (True, redis_setex key expires_in data w2))"

definition verify_code :: "string \<Rightarrow> string \<Rightarrow> World \<Rightarrow> bool \<times> World" where
  "verify_code mail code w =
     (let key = ''verification_code:'' @ mail
      in case redis_get key w of
           (None, w1) \<Rightarrow> (False, w1)
         | (Some data, w1) \<Rightarrow>
             let stored_code = vc_code data;
                 expires_at = vc_expires_at data
             in if stored_code = code
                then (let (now, w2) = utcnow w1
                      in if now \<le> expires_at then (True, redis_delete key w2)
                         else (False, w2))
                else (False, w1))"

text \<open>\<^verbatim>\<open>send_verification_email\<close> only prints and returns \<^verbatim>\<open>True\<close>.\<close>

definition send_verification_email :: "string \<Rightarrow> string \<Rightarrow> bool" where
  "send_verification_email mail code = True"

definition send_verification_code :: "string \<Rightarrow> World \<Rightarrow> bool \<times> World" where
  "send_verification_code mail w =
     (let (code, w1) = generate_verification_code w;
          (stored, w2) = store_verification_code mail code 300 w1
      in if \<not> stored then (False, w2) else (send_verification_email mail code, w2))"

section \<open>app/crud/crud_notification.py\<close>

text \<open>
  \<^verbatim>\<open>Query.update\<close> is one UPDATE statement over the rows that the filter selects and
  returns their number. The statement binds the new status, every listed id and the
  user id, each as one variable. The engine (SQLite, as \<^verbatim>\<open>app/db/base.py\<close>
  configures it) refuses a statement with more variables than its build allows, the
  parameter \<open>max_variables\<close> (32766 by default), with \<^verbatim>\<open>OperationalError\<close>, and
  the driver refuses to bind an integer outside the signed 64-bit range with
  \<^verbatim>\<open>OverflowError\<close>; in both cases no row is changed.
\<close>

definition sqlite_integer :: "int \<Rightarrow> bool" where
  "sqlite_integer i = (- 9223372036854775808 \<le> i \<and> i \<le> 9223372036854775807)"

definition batch_update_status ::
  "nat \<Rightarrow> World \<Rightarrow> int list \<Rightarrow> int \<Rightarrow> NotificationStatus \<Rightarrow> (error + nat) \<times> World" where
  "batch_update_status max_variables db notification_ids user_id new_status =
     (if length notification_ids + 2 > max_variables then (Inl OperationalError, db)
      else if \<not> (list_all sqlite_integer notification_ids \<and> sqlite_integer user_id)
      then (Inl OverflowError, db)
      else
        let selected = (\<lambda>n. n_id n \<in> set notification_ids \<and> n_user_id n = user_id);
            count = length (filter selected (notifications db))
        in (Inr count,
            db\<lparr>notifications :=
                 map (\<lambda>n. if selected n then n\<lparr>n_status := Some new_status\<rparr> else n)
                   (notifications db)\<rparr>))"


section \<open>app/api/v1/endpoints/auth.py\<close>

definition timedelta_minutes :: "int \<Rightarrow> timedelta" where
  "timedelta_minutes m = m * 60000000"

definition seconds :: "timedelta \<Rightarrow> int" where
  "seconds delta = (delta mod 86400000000) div 1000000"

record TokenResponse =
  access_token :: string
  refresh_token :: string
  token_type :: string
  expires_in :: int
  user :: User

text \<open>
  The two assignments \<^verbatim>\<open>access_token_expires = ...\<close> and
  \<^verbatim>\<open>refresh_token_expires = timedelta(minutes=settings.REFRESH_TOKEN_EXPIRE_MINUTES)\<close>
  that precede every token response, and the response itself.
\<close>

definition token_expires :: "Settings \<Rightarrow> error + timedelta \<times> timedelta" where
  "token_expires settings =
     (let access_token_expires = timedelta_minutes (ACCESS_TOKEN_EXPIRE_MINUTES settings)
      in case REFRESH_TOKEN_EXPIRE_MINUTES settings of
           Inl e \<Rightarrow> Inl e
         | Inr m \<Rightarrow> Inr (access_token_expires, timedelta_minutes m))"

definition token_response :: "Security \<Rightarrow> timedelta \<times> timedelta \<Rightarrow> User \<Rightarrow> TokenResponse" where
  "token_response sec expires u =
     \<lparr> access_token = create_access_token sec (id' u) (fst expires),
       refresh_token = create_refresh_token sec (id' u) (snd expires),
       token_type = ''bearer'',
       expires_in = seconds (fst expires),
       user = u \<rparr>"

text \<open>
  \<^verbatim>\<open>register_user\<close>. The object \<^verbatim>\<open>user\<close> that \<^verbatim>\<open>create_user\<close> returned is the one
  that \<^verbatim>\<open>set_trial_period\<close> loads by its key and changes (the session keeps one object
  per row), so the response would carry the changed row.
\<close>

definition register_user ::
  "Security \<Rightarrow> Settings \<Rightarrow> string \<Rightarrow> string \<Rightarrow> string \<Rightarrow> string \<Rightarrow> World
     \<Rightarrow> (error + TokenResponse) \<times> World" where
  "register_user sec settings uname mail password code db =
     (case verify_code mail code db of
        (False, db1) \<Rightarrow> (Inl (HTTPException 400), db1)
      | (True, db1) \<Rightarrow>
          if get_by_email db1 (Some mail) \<noteq> None then (Inl (HTTPException 400), db1)
          else if get_by_username db1 uname \<noteq> None then (Inl (HTTPException 400), db1)
          else
            (case create_user sec settings (UserRegister uname mail password code) db1 of
               (Inl e, db2) \<Rightarrow> (Inl e, db2)
             | (Inr created, db2) \<Rightarrow>
                 (case set_trial_period settings db2 (id' created)
                         (TRIAL_PERIOD_DAYS settings) of
                    (r, db3) \<Rightarrow>
                      (case token_expires settings of
                         Inl e \<Rightarrow> (Inl e, db3)
                       | Inr expires \<Rightarrow>
                           (Inr (token_response sec expires
                                   (case r of Some row \<Rightarrow> row | None \<Rightarrow> created)),
                            db3)))))"

text \<open>
  \<^verbatim>\<open>auto_register_user\<close>. For a device without an account it builds a \<^verbatim>\<open>dict\<close> and
  passes it to \<^verbatim>\<open>create_user\<close>; the final \<^verbatim>\<open>return\<close> of that path reads
  \<^verbatim>\<open>access_token_expires\<close>, which only the other path assigns.
\<close>

definition auto_register_user ::
  "Security \<Rightarrow> Settings \<Rightarrow> string option \<Rightarrow> string option \<Rightarrow> string option \<Rightarrow> World
     \<Rightarrow> ((error + TokenResponse) \<times> World) option" where
  "auto_register_user sec settings dev agent client_host db =
     (if dev = None \<or> dev = Some [] then Some (Inl (HTTPException 400), db)
      else
        case get_by_device_id db dev of
          Some found \<Rightarrow>
            Some
              (case token_expires settings of
                 Inl e \<Rightarrow> (Inl e, db)
               | Inr expires \<Rightarrow>
                   (case update_last_login db (id' found) of
                      (r, db1) \<Rightarrow>
                        (Inr (token_response sec expires
                                (case r of Some row \<Rightarrow> row | None \<Rightarrow> found)),
                         db1)))
        | None \<Rightarrow>
            (case generate_unique_username db of
               None \<Rightarrow> None
             | Some (uname, db1) \<Rightarrow>
                 Some
                   (let (password, db2) = generate_random_password db1;
                        user_create_data =
                          PyDict [(''username'', Some uname), (''email'', None),
                                  (''password'', Some password), (''device_id'', dev),
                                  (''user_agent'', agent), (''ip_address'', client_host)]
                    in case create_user sec settings user_create_data db2 of
                         (Inl e, db3) \<Rightarrow> (Inl e, db3)
                       | (Inr created, db3) \<Rightarrow>
                           (case set_trial_period settings db3 (id' created)
                                   (TRIAL_PERIOD_DAYS settings) of
                              (r, db4) \<Rightarrow> (Inl UnboundLocalError, db4)))))"

section \<open>app/api/v1/endpoints/oauth.py\<close>

text \<open>
  The resolution of an OAuth identity to an account (lines 36 to 59 of
  \<^verbatim>\<open>google_oauth_login\<close>, repeated in \<^verbatim>\<open>apple_oauth_login\<close> and
  \<^verbatim>\<open>google_oauth_callback\<close>): the values of \<^verbatim>\<open>user\<close> and \<^verbatim>\<open>is_new_user\<close> when
  the block ends. \<open>None\<close> is the case where the generation of a user name does not return.
\<close>

definition oauth_resolve ::
  "Settings \<Rightarrow> World \<Rightarrow> OAuthInfo \<Rightarrow> ((error + User \<times> bool) \<times> World) option" where
  "oauth_resolve settings db user_info =
     (case get_by_oauth_provider db (info_provider user_info) (info_provider_id user_info) of
        Some existing_user \<Rightarrow>
          (case update_last_login db (id' existing_user) of
             (r, db1) \<Rightarrow>
               Some (Inr (case r of Some row \<Rightarrow> row | None \<Rightarrow> existing_user, False), db1))
      | None \<Rightarrow>
          (case get_by_email db (info_email user_info) of
             Some email_user \<Rightarrow>
               (case link_oauth_account db email_user user_info of
                  (linked, db1) \<Rightarrow> Some (Inr (linked, False), db1))
           | None \<Rightarrow>
               (case create_oauth_user settings db user_info of
                  None \<Rightarrow> None
                | Some (Inl e, db1) \<Rightarrow> Some (Inl e, db1)
                | Some (Inr created, db1) \<Rightarrow> Some (Inr (created, True), db1))))"

record OAuthLoginResponse =
  tokens :: TokenResponse
  is_new_user :: bool

text \<open>
  \<^verbatim>\<open>google_oauth_login\<close>. The argument is what \<^verbatim>\<open>get_google_user_info\<close> returned
  for the request's token (\<^verbatim>\<open>None\<close> for a token that it rejects). The body is inside
  \<^verbatim>\<open>try ... except Exception\<close>, which turns every exception, its own
  \<^verbatim>\<open>HTTPException(400)\<close> included, into \<^verbatim>\<open>HTTPException(500)\<close>.
\<close>

definition google_oauth_login ::
  "Security \<Rightarrow> Settings \<Rightarrow> OAuthInfo option \<Rightarrow> World
     \<Rightarrow> ((error + OAuthLoginResponse) \<times> World) option" where
  "google_oauth_login sec settings got db =
     (case got of
        None \<Rightarrow> Some (Inl (HTTPException 500), db)
      | Some user_info \<Rightarrow>
          (case oauth_resolve settings db user_info of
             None \<Rightarrow> None
           | Some (Inl e, db1) \<Rightarrow> Some (Inl (HTTPException 500), db1)
           | Some (Inr (u, new), db1) \<Rightarrow>
               (case token_expires settings of
                  Inl e \<Rightarrow> Some (Inl (HTTPException 500), db1)
                | Inr expires \<Rightarrow>
                    Some (Inr \<lparr> tokens = token_response sec expires u,
                                is_new_user = new \<rparr>, db1))))"


section \<open>Auxiliary notions\<close>



section \<open>Concrete inputs\<close>

text \<open>
  An empty system whose clock advances by one second per reading and whose random
  numbers are 0, 1, 2, ...; a stand-in for the security module; a password account.
\<close>

definition world0 :: World where
  "world0 =
     \<lparr> users = [], users_seq = 0, notifications = [], redis = Map.empty,
       clock = (\<lambda>n. int n * 1000000), ticks = 0, rand = (\<lambda>n. n), draws = 0 \<rparr>"

definition sec0 :: Security where
  "sec0 =
     \<lparr> get_password_hash = (\<lambda>p. ''hash:'' @ p),
       verify_password = (\<lambda>p h. Inr (h = Some (''hash:'' @ p))),
       create_access_token = (\<lambda>i t. ''access''),
       create_refresh_token = (\<lambda>i t. ''refresh'') \<rparr>"

definition alice :: User where
  "alice =
     \<lparr> id' = 1, username = ''alice'', email = Some ''alice@x.com'',
       hashed_password = Some ''hash:pw123456'', user_type = TRIAL, status = ACTIVE,
       device_id = None, user_agent = None, ip_address = None,
       oauth_provider = None, oauth_provider_id = None, oauth_email_verified = Some False,
       trial_start_date = Some 0, trial_end_date = Some 259200000000,
       subscription_start_date = None, subscription_end_date = None,
       max_follows = 5, current_follows = 2, email_notifications = True,
       sms_notifications = False, push_notifications = True,
       created_at = Some 1000000, updated_at = None, last_login_at = None \<rparr>"









text \<open>The empty system after a verification code was sent to an address.\<close>

definition world_code :: World where
  "world_code = snd (send_verification_code ''alice@x.com'' world0)"

definition notif :: "int \<Rightarrow> int \<Rightarrow> Notification" where
  "notif i owner =
     \<lparr> n_id = i, n_user_id = owner, title = ''t'', content = ''c'', n_type = SYSTEM,
       priority = Some MEDIUM, n_status = Some UNREAD, related_id = None,
       related_data = None, n_created_at = Some 0, read_at = None \<rparr>"

definition world_notes :: World where
  "world_notes = world0\<lparr>notifications := [notif 1 1, notif 2 2, notif 3 1]\<rparr>"

section \<open>Facts about the tables\<close>

lemma or_default_simps [simp]:
  "or_default None d = Some d" "or_default (Some x) d = Some x"
  by (simp_all add: or_default_def)


lemma find_append_new:
  "find P (xs @ [r]) =
     (case find P xs of Some x \<Rightarrow> Some x | None \<Rightarrow> if P r then Some r else None)"
  by (induction xs) auto

lemma find_fresh_key:
  "\<forall>u \<in> set us. id' u \<le> s \<Longrightarrow> find (\<lambda>u. id' u = s + 1) us = None"
  by (auto simp: find_None_iff)

lemma map_replace_fresh:
  "\<forall>u \<in> set us. id' u \<le> s \<Longrightarrow>
     map (\<lambda>u. if id' u = s + 1 then r else u) us = us"
  by (induction us) auto

lemma update_user_row_cases:
  "update_user_row db old new = (row, db') \<Longrightarrow>
     (row = new \<or> row = new\<lparr>updated_at := Some (clock db (ticks db))\<rparr>)
   \<and> (users db' = users db
        \<or> users db' = map (\<lambda>u. if id' u = id' old then row else u) (users db))
   \<and> notifications db' = notifications db \<and> redis db' = redis db
   \<and> users_seq db' = users_seq db"
  by (auto simp: update_user_row_def utcnow_def Let_def split: if_splits)

section \<open>Facts about the generation of user names\<close>

lemma generate_unique_username_frame:
  assumes "generate_unique_username db = Some y"
  shows "(\<exists>d. snd y = db\<lparr>draws := d\<rparr>) \<and> get_by_username db (fst y) = None"
proof (rule generate_unique_username.raw_induct
    [where P = "\<lambda>db y. (\<exists>d. snd y = db\<lparr>draws := d\<rparr>) \<and> get_by_username db (fst y) = None",
     OF _ assms], goal_cases)
  case (1 g db y)
  define db1 where "db1 = db\<lparr>draws := draws db + 8\<rparr>"
  define sfx where "sfx = fst (random_choices (ascii_lowercase @ digits) 8 db)"
  define c where "c = ''user_'' @ sfx"
  have r: "random_choices (ascii_lowercase @ digits) 8 db = (sfx, db1)"
    by (simp add: random_choices_def db1_def sfx_def)
  have u: "get_by_username db1 x = get_by_username db x" for x
    by (simp add: get_by_username_def db1_def)
  show ?case
  proof (cases "get_by_username db c = None")
    case True
    with 1(2) r u have "y = (c, db1)"
      by (auto simp: c_def split: if_splits)
    with True show ?thesis
      by (auto simp: db1_def)
  next
    case False
    with 1(2) r u have "g db1 = Some y"
      by (auto simp: c_def split: if_splits)
    then have "(\<exists>d. snd y = db1\<lparr>draws := d\<rparr>) \<and> get_by_username db1 (fst y) = None"
      by (rule 1(1))
    with u show ?thesis
      by (auto simp: db1_def)
  qed
qed


section \<open>Facts about the verification codes\<close>

lemma send_verification_code_stores:
  "send_verification_code mail w = (sent, w1) \<Longrightarrow>
     sent \<and>
     redis w1 (''verification_code:'' @ mail) =
       Some (\<lparr> vc_code = fst (generate_verification_code w),
                vc_created_at = clock w (ticks w),
                vc_expires_at = clock w (Suc (ticks w)) + timedelta_seconds 300 \<rparr>,
             clock w (Suc (Suc (ticks w))) + timedelta_seconds 300)"
  by (auto simp: send_verification_code_def store_verification_code_def redis_setex_def
      generate_verification_code_def random_choices_def send_verification_email_def
      utcnow_def Let_def split_def)

lemma verify_code_expired:
  "redis w (''verification_code:'' @ mail) = Some (data, dropped_at) \<Longrightarrow>
   clock w (Suc (ticks w)) > vc_expires_at data \<Longrightarrow>
   fst (verify_code mail c w) = False"
  by (simp add: verify_code_def redis_get_def utcnow_def Let_def split_def)

lemma verify_code_absent:
  "redis w (''verification_code:'' @ mail) = None \<Longrightarrow> fst (verify_code mail c w) = False"
  by (simp add: verify_code_def redis_get_def utcnow_def Let_def split_def)

lemma verify_code_deletes:
  "verify_code mail c w = (True, w') \<Longrightarrow> redis w' (''verification_code:'' @ mail) = None"
  by (auto simp: verify_code_def redis_get_def redis_delete_def utcnow_def Let_def split_def
      split: option.splits if_splits)

lemma verify_code_True:
  "verify_code mail code db = (True, db1) \<Longrightarrow>
     users db1 = users db \<and> users_seq db1 = users_seq db \<and> clock db1 = clock db
     \<and> ticks db1 = Suc (Suc (ticks db)) \<and> notifications db1 = notifications db
     \<and> rand db1 = rand db \<and> draws db1 = draws db"
  by (auto simp: verify_code_def redis_get_def redis_delete_def utcnow_def Let_def split_def
      split: option.splits if_splits)

section \<open>Facts about registration\<close>

lemma create_user_inserts:
  assumes "get_by_email db (Some mail) = None" "get_by_username db uname = None"
  shows "\<exists>row db'.
       create_user sec settings (UserRegister uname mail password code) db = (Inr row, db')
     \<and> users db' = users db @ [row] \<and> users_seq db' = users_seq db + 1
     \<and> clock db' = clock db \<and> ticks db' = ticks db + 5
     \<and> id' row = users_seq db + 1
     \<and> username row = uname \<and> email row = Some mail
     \<and> hashed_password row = Some (get_password_hash sec password)
     \<and> user_type row = TRIAL
     \<and> max_follows row = TRIAL_MAX_FOLLOWS settings
     \<and> created_at row = Some (clock db (ticks db + 2))
     \<and> trial_end_date row =
          Some (clock db (ticks db + 1) + timedelta_days (TRIAL_PERIOD_DAYS settings))"
  using assms
  by (simp add: insert_user_def get_by_email_def get_by_username_def utcnow_def Let_def
      split_def)

lemma set_trial_period_last:
  assumes "users db = us @ [row]" "id' row = s + 1" "\<forall>u \<in> set us. id' u \<le> s"
  shows "\<exists>row' db'. set_trial_period settings db (id' row) n = (Some row', db')
     \<and> users db' = us @ [row']
     \<and> row'\<lparr>trial_start_date := trial_start_date row, trial_end_date := trial_end_date row,
            user_type := user_type row, max_follows := max_follows row,
            updated_at := updated_at row\<rparr> = row
     \<and> user_type row' = TRIAL
     \<and> max_follows row' = TRIAL_MAX_FOLLOWS settings
     \<and> trial_end_date row' = Some (clock db (ticks db + 1) + timedelta_days n)"
proof -
  have g: "get db (id' row) = Some row"
    using assms by (simp add: get_def find_append_new find_fresh_key)
  define new where
    "new = row\<lparr>trial_start_date := Some (clock db (ticks db)),
               trial_end_date := Some (clock db (ticks db + 1) + timedelta_days n),
               user_type := TRIAL, max_follows := TRIAL_MAX_FOLLOWS settings\<rparr>"
  define db2 where "db2 = db\<lparr>ticks := Suc (Suc (ticks db))\<rparr>"
  obtain row' db' where r: "update_user_row db2 row new = (row', db')"
    by (cases "update_user_row db2 row new")
  have s: "set_trial_period settings db (id' row) n = (Some row', db')"
    using g r by (simp add: set_trial_period_def utcnow_def new_def db2_def)
  have c: "row' = new \<or> row' = new\<lparr>updated_at := Some (clock db2 (ticks db2))\<rparr>"
    using r by (auto simp: update_user_row_def utcnow_def Let_def split: if_splits)
  have t: "users db' = us @ [row']"
    using r assms
    by (auto simp: update_user_row_def utcnow_def Let_def db2_def map_replace_fresh
        split: if_splits)
  show ?thesis
    using s c t by (auto simp: new_def)
qed

lemma register_user_stores:
  assumes "\<forall>u \<in> set (users db). id' u \<le> users_seq db"
    and "verify_code mail code db = (True, db1)"
    and "get_by_email db (Some mail) = None"
    and "get_by_username db uname = None"
  shows "\<exists>r db' u. register_user sec settings uname mail password code db = (r, db')
     \<and> users db' = users db @ [u]
     \<and> username u = uname \<and> email u = Some mail
     \<and> user_type u = TRIAL
     \<and> max_follows u = TRIAL_MAX_FOLLOWS settings
     \<and> created_at u = Some (clock db (ticks db + 4))
     \<and> trial_end_date u =
          Some (clock db (ticks db + 8) + timedelta_days (TRIAL_PERIOD_DAYS settings))"
proof -
  note v = verify_code_True [OF assms(2)]
  have e: "get_by_email db1 (Some mail) = None" and n: "get_by_username db1 uname = None"
    using assms(3,4) v by (simp_all add: get_by_email_def get_by_username_def)
  from create_user_inserts [OF e n, of sec settings password code]
  obtain row db2 where
    c: "create_user sec settings (UserRegister uname mail password code) db1 = (Inr row, db2)"
    and c2: "users db2 = users db1 @ [row]" "id' row = users_seq db1 + 1"
       "clock db2 = clock db1" "ticks db2 = ticks db1 + 5"
    and c3: "username row = uname" "email row = Some mail"
       "created_at row = Some (clock db1 (ticks db1 + 2))"
    by blast
  have k: "\<forall>u \<in> set (users db1). id' u \<le> users_seq db1"
    using assms(1) v by simp
  from set_trial_period_last [OF c2(1) c2(2) k, of settings "TRIAL_PERIOD_DAYS settings"]
  obtain row' db3 where
    s: "set_trial_period settings db2 (id' row) (TRIAL_PERIOD_DAYS settings) = (Some row', db3)"
    and s2: "users db3 = users db1 @ [row']"
    and s3: "row'\<lparr>trial_start_date := trial_start_date row,
            trial_end_date := trial_end_date row,
            user_type := user_type row, max_follows := max_follows row,
            updated_at := updated_at row\<rparr> = row"
    and s4: "user_type row' = TRIAL" "max_follows row' = TRIAL_MAX_FOLLOWS settings"
       "trial_end_date row' =
          Some (clock db2 (ticks db2 + 1) + timedelta_days (TRIAL_PERIOD_DAYS settings))"
    by blast
  have f: "username row' = username row" "email row' = email row"
    "created_at row' = created_at row"
    using arg_cong [OF s3, of username] arg_cong [OF s3, of email]
      arg_cong [OF s3, of created_at]
    by simp_all
  have "snd (register_user sec settings uname mail password code db) = db3"
    using assms(2) e n c s
    by (simp add: register_user_def del: create_user.simps split: sum.splits)
  then have "register_user sec settings uname mail password code db =
      (fst (register_user sec settings uname mail password code db), db3)"
    by (metis prod.collapse)
  then show ?thesis
    using s2 s4 f c3 c2 v by (auto simp: add.commute eval_nat_numeral)
qed


section \<open>The concrete inputs, evaluated\<close>

lemma world_code_fields:
  "users world_code = []" "users_seq world_code = 0" "ticks world_code = 3"
  "clock world_code = (\<lambda>n. int n * 1000000)"
  "redis world_code ''verification_code:alice@x.com'' =
     Some (\<lparr> vc_code = ''012345'', vc_created_at = 0, vc_expires_at = 301000000 \<rparr>,
           302000000)"
  by (simp_all add: world_code_def send_verification_code_def store_verification_code_def
      redis_setex_def generate_verification_code_def random_choices_def
      send_verification_email_def utcnow_def Let_def split_def world0_def digits_def upt_rec
      timedelta_seconds_def)

lemma verify_code_world_code:
  "verify_code ''alice@x.com'' ''012345'' world_code =
     (True, world_code\<lparr>ticks := 5,
        redis := (redis world_code)(''verification_code:alice@x.com'' := None)\<rparr>)"
  using world_code_fields
  by (simp add: verify_code_def redis_get_def redis_delete_def utcnow_def Let_def split_def)

lemma generate_unique_username_world0:
  "generate_unique_username world0 = Some (''user_abcdefgh'', world0\<lparr>draws := 8\<rparr>)"
  by (subst generate_unique_username.simps)
     (simp add: random_choices_def world0_def ascii_lowercase_def digits_def
       get_by_username_def upt_rec)


section \<open>Facts about the resolution of an OAuth identity\<close>
















section \<open>Facts about the token responses and the device registration\<close>

lemma token_expires_raises: "token_expires settings = Inl AttributeError"
  by (simp add: token_expires_def REFRESH_TOKEN_EXPIRE_MINUTES_def)

lemma auto_register_user_no_response:
  "auto_register_user sec settings dev agent client_host db \<noteq> Some (Inr response, db')"
  by (auto simp: auto_register_user_def token_expires_def REFRESH_TOKEN_EXPIRE_MINUTES_def
      Let_def split_def split: option.splits sum.splits prod.splits)

lemma auto_register_user_users:
  "auto_register_user sec settings dev agent client_host db = Some (r, db') \<Longrightarrow>
     users db' = users db"
  by (auto simp: auto_register_user_def token_expires_def REFRESH_TOKEN_EXPIRE_MINUTES_def
      Let_def split_def generate_random_password_def random_choices_def
      split: option.splits sum.splits prod.splits if_splits
      dest!: generate_unique_username_frame)

text \<open>
  The other endpoints that build a token response end, after their work on the tables, in
  the same exception: none of them returns a response.
\<close>

lemma register_user_no_response:
  "register_user sec settings uname mail password code db \<noteq> (Inr response, db')"
  by (auto simp: register_user_def token_expires_raises
      split: prod.splits bool.splits sum.splits option.splits)

lemma google_oauth_login_no_response:
  "google_oauth_login sec settings got db \<noteq> Some (Inr response, db')"
  by (auto simp: google_oauth_login_def token_expires_raises
      split: prod.splits sum.splits option.splits)

section \<open>Entitlement\<close>

text \<open>
  C1. For every account and every time \<open>now\<close>: \<open>is_trial_expired\<close> is true exactly when
  the tier is trial, the trial end date is set and \<open>now\<close> is after it;
  \<open>is_subscription_active\<close> is the negation of \<open>is_trial_expired\<close> for a trial account,
  true for a lifetime account whatever its dates (also with no subscription end date),
  and otherwise true exactly when the subscription end date is set and \<open>now\<close> is not
  after it.
\<close>

theorem is_subscription_active_spec:
  "is_trial_expired u now =
     (user_type u = TRIAL \<and> (\<exists>e. trial_end_date u = Some e \<and> now > e))
   \<and> is_subscription_active u now =
     (case user_type u of
        TRIAL \<Rightarrow> \<not> is_trial_expired u now
      | LIFETIME \<Rightarrow> True
      | _ \<Rightarrow> (\<exists>e. subscription_end_date u = Some e \<and> now \<le> e))"
  by (cases "user_type u")
     (auto simp: is_trial_expired_def is_subscription_active_def split: option.splits)

section \<open>Usage statistics\<close>

text \<open>
  C10. For an account whose \<open>created_at\<close> is set, the usage statistics report an account
  age of 0 days, whatever the creation time (the code subtracts \<open>created_at\<close> from
  itself), and 0 notifications today.
\<close>

theorem get_usage_stats_zero:
  assumes "created_at u = Some c"
  shows "account_age_days (get_usage_stats u) = 0
       \<and> notifications_today (get_usage_stats u) = 0"
  using assms by (simp add: get_usage_stats_def days_def)

theorem get_usage_stats_zero_witness:
  "account_age_days (get_usage_stats
      \<lparr> id' = 1, username = ''alice'', email = Some ''alice@x.com'',
        hashed_password = Some ''h'', user_type = TRIAL, status = ACTIVE,
        device_id = None, user_agent = None, ip_address = None,
        oauth_provider = None, oauth_provider_id = None, oauth_email_verified = None,
        trial_start_date = Some 0, trial_end_date = Some 259200000000,
        subscription_start_date = None, subscription_end_date = None,
        max_follows = 5, current_follows = 2, email_notifications = True,
        sms_notifications = False, push_notifications = True,
        created_at = Some 1000000, updated_at = None, last_login_at = None \<rparr>) = 0
   \<and> notifications_today (get_usage_stats
      \<lparr> id' = 1, username = ''alice'', email = Some ''alice@x.com'',
        hashed_password = Some ''h'', user_type = TRIAL, status = ACTIVE,
        device_id = None, user_agent = None, ip_address = None,
        oauth_provider = None, oauth_provider_id = None, oauth_email_verified = None,
        trial_start_date = Some 0, trial_end_date = Some 259200000000,
        subscription_start_date = None, subscription_end_date = None,
        max_follows = 5, current_follows = 2, email_notifications = True,
        sms_notifications = False, push_notifications = True,
        created_at = Some 1000000, updated_at = None, last_login_at = None \<rparr>) = 0"
  by (rule get_usage_stats_zero [of _ 1000000]) simp

section \<open>Refresh tokens\<close>

text \<open>
  C3. \<open>verify_refresh_token\<close> returns \<open>None\<close> for every token, valid ones included:
  the password verifier either raises or returns a \<^verbatim>\<open>bool\<close>, on which
  \<^verbatim>\<open>.get("sub")\<close> raises, and both exceptions are caught. It never raises, and it
  never returns a user id.
\<close>

theorem verify_refresh_token_returns_None:
  "verify_refresh_token sec settings tok = None"
  by (simp add: verify_refresh_token_def bool_getattr_get_def split: sum.splits)

section \<open>Linking an OAuth identity\<close>

text \<open>
  C6. Linking an OAuth identity to an account changes, on that account, only the three
  OAuth attributes and \<open>updated_at\<close>: with these four fields put back, the account
  returned is the account given, so the password hash, the user name, the email, the
  device id, the tier and every other field are unchanged. The table is unchanged or
  has the rows with that account's key replaced by the linked account; the other tables
  are unchanged.
\<close>

theorem link_oauth_account_frame:
  "(case link_oauth_account db u oauth_info of
      (u', db') \<Rightarrow>
        u'\<lparr>oauth_provider := oauth_provider u,
           oauth_provider_id := oauth_provider_id u,
           oauth_email_verified := oauth_email_verified u,
           updated_at := updated_at u\<rparr> = u
      \<and> hashed_password u' = hashed_password u
      \<and> username u' = username u
      \<and> email u' = email u
      \<and> device_id u' = device_id u
      \<and> user_type u' = user_type u
      \<and> id' u' = id' u
      \<and> oauth_provider u' = info_provider oauth_info
      \<and> oauth_provider_id u' = info_provider_id oauth_info
      \<and> oauth_email_verified u' = info_email_verified oauth_info
      \<and> (users db' = users db
          \<or> users db' = map (\<lambda>v. if id' v = id' u then u' else v) (users db))
      \<and> notifications db' = notifications db
      \<and> redis db' = redis db)"
proof -
  define t where "t = clock db (ticks db)"
  define db1 where "db1 = db\<lparr>ticks := Suc (ticks db)\<rparr>"
  define new where
    "new = u\<lparr>oauth_provider := info_provider oauth_info,
             oauth_provider_id := info_provider_id oauth_info,
             oauth_email_verified := info_email_verified oauth_info,
             updated_at := Some t\<rparr>"
  obtain u' db' where r: "update_user_row db1 u new = (u', db')"
    by (cases "update_user_row db1 u new")
  have l: "link_oauth_account db u oauth_info = (u', db')"
    using r by (simp add: link_oauth_account_def utcnow_def t_def db1_def new_def)
  from update_user_row_cases [OF r]
  have row: "u' = new \<or> u' = new\<lparr>updated_at := Some (clock db1 (ticks db1))\<rparr>"
    and tab: "users db' = users db1
        \<or> users db' = map (\<lambda>v. if id' v = id' u then u' else v) (users db1)"
    and rest: "notifications db' = notifications db1" "redis db' = redis db1"
    by simp_all
  from row have fields:
    "u'\<lparr>oauth_provider := oauth_provider u,
        oauth_provider_id := oauth_provider_id u,
        oauth_email_verified := oauth_email_verified u,
        updated_at := updated_at u\<rparr> = u"
    "hashed_password u' = hashed_password u" "username u' = username u"
    "email u' = email u" "device_id u' = device_id u" "user_type u' = user_type u"
    "id' u' = id' u" "oauth_provider u' = info_provider oauth_info"
    "oauth_provider_id u' = info_provider_id oauth_info"
    "oauth_email_verified u' = info_email_verified oauth_info"
    by (auto simp: new_def)
  show ?thesis
    using fields tab rest by (simp add: l db1_def)
qed

section \<open>Password authentication\<close>



section \<open>Verification codes\<close>

text \<open>
  C8. After a verification code was sent to an address, and while nothing else is written
  to Redis for it: a verification that reads the clock more than 300 seconds after the
  reading from which the expiry was computed fails, whatever the code; and after a
  successful verification the stored code is gone, so every later verification with
  that code fails.
\<close>

theorem verification_code_expiry_single_use:
  assumes "send_verification_code mail w = (sent, w1)"
    and "redis w2 = redis w1"
  shows "sent
    \<and> (clock w2 (Suc (ticks w2)) > clock w (Suc (ticks w)) + timedelta_seconds 300
         \<longrightarrow> fst (verify_code mail c w2) = False)
    \<and> (\<forall>w3. verify_code mail c w2 = (True, w3) \<longrightarrow>
          redis w3 (''verification_code:'' @ mail) = None
          \<and> (\<forall>w4. redis w4 = redis w3 \<longrightarrow> fst (verify_code mail c w4) = False))"
proof -
  note st = send_verification_code_stores [OF assms(1)]
  have e: "fst (verify_code mail c w2) = False"
    if "clock w2 (Suc (ticks w2)) > clock w (Suc (ticks w)) + timedelta_seconds 300"
    using st that assms(2) by (intro verify_code_expired) auto
  have d: "redis w3 (''verification_code:'' @ mail) = None
      \<and> (\<forall>w4. redis w4 = redis w3 \<longrightarrow> fst (verify_code mail c w4) = False)"
    if "verify_code mail c w2 = (True, w3)" for w3
  proof -
    have n: "redis w3 (''verification_code:'' @ mail) = None"
      by (rule verify_code_deletes [OF that])
    have "fst (verify_code mail c w4) = False" if "redis w4 = redis w3" for w4
      by (rule verify_code_absent) (simp only: that n)
    with n show ?thesis by blast
  qed
  show ?thesis using st e d by blast
qed

theorem verification_code_expiry_single_use_witness:
  "fst (verify_code ''alice@x.com'' ''012345'' (world_code\<lparr>ticks := 400\<rparr>)) = False
   \<and> fst (verify_code ''alice@x.com'' ''012345'' world_code) = True
   \<and> fst (verify_code ''alice@x.com'' ''012345''
        (snd (verify_code ''alice@x.com'' ''012345'' world_code))) = False"
proof -
  have s: "send_verification_code ''alice@x.com'' world0 =
      (fst (send_verification_code ''alice@x.com'' world0), world_code)"
    by (simp add: world_code_def)
  have late: "clock (world_code\<lparr>ticks := 400\<rparr>) (Suc (ticks (world_code\<lparr>ticks := 400\<rparr>)))
      > clock world0 (Suc (ticks world0)) + timedelta_seconds 300"
    by (simp add: world_code_fields world0_def timedelta_seconds_def)
  from verification_code_expiry_single_use
    [OF s, of "world_code\<lparr>ticks := 400\<rparr>" "''012345''"] late
  have 1: "fst (verify_code ''alice@x.com'' ''012345'' (world_code\<lparr>ticks := 400\<rparr>)) = False"
    by simp
  from verification_code_expiry_single_use [OF s, of world_code "''012345''"]
    verify_code_world_code
  have 3: "fst (verify_code ''alice@x.com'' ''012345''
        (snd (verify_code ''alice@x.com'' ''012345'' world_code))) = False"
    by simp
  from 1 3 verify_code_world_code show ?thesis by simp
qed

section \<open>Notifications\<close>

text \<open>
  C9 (as amended). Whatever the list of ids, \<open>batch_update_status\<close> leaves every row of
  another account, and every other table, as it is. For a statement that the engine
  accepts (the list, with the status and the user id, within the engine's number of
  variables, and every id and the user id in the signed 64-bit range) it raises no
  error: it sets the status of exactly the rows whose id is in the list and whose owner
  is the caller, leaves every other row as it is, a listed row of another account
  included, and returns the number of the rows that it selected. For a statement that
  the engine refuses it raises and changes nothing.
\<close>

theorem batch_update_status_owned_only:
  "(case batch_update_status max_variables db ids uid st of
      (r, db') \<Rightarrow>
        length (notifications db') = length (notifications db)
      \<and> (\<forall>i < length (notifications db).
            n_user_id (notifications db ! i) \<noteq> uid \<longrightarrow>
              notifications db' ! i = notifications db ! i)
      \<and> users db' = users db
      \<and> redis db' = redis db
      \<and> (length ids + 2 \<le> max_variables \<and> list_all sqlite_integer ids \<and> sqlite_integer uid
          \<longrightarrow> r = Inr (card {i. i < length (notifications db)
                                 \<and> n_id (notifications db ! i) \<in> set ids
                                 \<and> n_user_id (notifications db ! i) = uid})
            \<and> (\<forall>i < length (notifications db).
                  notifications db' ! i =
                    (if n_id (notifications db ! i) \<in> set ids
                        \<and> n_user_id (notifications db ! i) = uid
                     then (notifications db ! i)\<lparr>n_status := Some st\<rparr>
                     else notifications db ! i)))
      \<and> (\<not> (length ids + 2 \<le> max_variables \<and> list_all sqlite_integer ids
              \<and> sqlite_integer uid)
          \<longrightarrow> (\<exists>e. r = Inl e) \<and> db' = db))"
  by (auto simp: batch_update_status_def Let_def length_filter_conv_card)

theorem batch_update_status_owned_only_witness:
  "fst (batch_update_status 32766 world_notes [1, 2] 1 READ) = Inr 1
   \<and> notifications (snd (batch_update_status 32766 world_notes [1, 2] 1 READ)) ! 0
       = (notif 1 1)\<lparr>n_status := Some READ\<rparr>
   \<and> notifications (snd (batch_update_status 32766 world_notes [1, 2] 1 READ)) ! 1
       = notif 2 2
   \<and> notifications (snd (batch_update_status 32766 world_notes [1, 2] 1 READ)) ! 2
       = notif 3 1
   \<and> snd (batch_update_status 32766 world_notes [1, 9223372036854775808] 1 READ)
       = world_notes"
proof -
  obtain r db' where e: "batch_update_status 32766 world_notes [1, 2] 1 READ = (r, db')"
    by (cases "batch_update_status 32766 world_notes [1, 2] 1 READ")
  obtain r2 db2 where
    e2: "batch_update_status 32766 world_notes [1, 9223372036854775808] 1 READ = (r2, db2)"
    by (cases "batch_update_status 32766 world_notes [1, 9223372036854775808] 1 READ")
  have l: "length (notifications world_notes) = 3"
    "notifications world_notes ! 0 = notif 1 1"
    "notifications world_notes ! 1 = notif 2 2"
    "notifications world_notes ! 2 = notif 3 1"
    by (simp_all add: world_notes_def)
  have ok: "length [1, 2 :: int] + 2 \<le> (32766 :: nat) \<and> list_all sqlite_integer [1, 2]
      \<and> sqlite_integer 1"
    by (simp add: sqlite_integer_def)
  have bad: "\<not> (length [1, 9223372036854775808 :: int] + 2 \<le> (32766 :: nat)
      \<and> list_all sqlite_integer [1, 9223372036854775808] \<and> sqlite_integer 1)"
    by (simp add: sqlite_integer_def)
  from batch_update_status_owned_only
    [where max_variables = 32766 and db = world_notes and ids = "[1, 2]" and uid = 1
       and st = READ] e l ok
  have other: "\<forall>i < 3. n_user_id (notifications world_notes ! i) \<noteq> 1 \<longrightarrow>
        notifications db' ! i = notifications world_notes ! i"
    and rows: "\<forall>i < 3. notifications db' ! i =
        (if n_id (notifications world_notes ! i) \<in> set [1, 2]
            \<and> n_user_id (notifications world_notes ! i) = 1
         then (notifications world_notes ! i)\<lparr>n_status := Some READ\<rparr>
         else notifications world_notes ! i)"
    by simp_all
  from rows l have r0: "notifications db' ! 0 = (notif 1 1)\<lparr>n_status := Some READ\<rparr>"
    "notifications db' ! 2 = notif 3 1"
    by (simp_all add: notif_def)
  from other l have o: "notifications db' ! 1 = notif 2 2"
    by (simp add: notif_def)
  have c: "r = Inr 1"
    using e
    by (simp add: batch_update_status_def sqlite_integer_def world_notes_def notif_def
        Let_def)
  from batch_update_status_owned_only
    [where max_variables = 32766 and db = world_notes
       and ids = "[1, 9223372036854775808]" and uid = 1 and st = READ] e2 bad
  have u: "db2 = world_notes"
    by simp
  from e e2 r0 o c u show ?thesis by simp
qed

text \<open>
  C9 as stated fails: a list with an id outside the signed 64-bit range, and a list
  longer than the engine's number of variables allows, raise an error instead of being
  skipped, and no count is returned.
\<close>

theorem batch_update_status_raises_counterexample:
  "fst (batch_update_status 32766 world_notes [9223372036854775808] 1 READ)
     = Inl OverflowError
   \<and> fst (batch_update_status 32766 world_notes (replicate 32767 1) 1 READ)
     = Inl OperationalError"
  by (simp add: batch_update_status_def sqlite_integer_def)

section \<open>Registration\<close>

text \<open>
  C2 (as amended). For every valid password registration (the verification code
  verifies, the email and the user name are not yet bound, the sequence of the table is
  not behind its keys), \<open>register_user\<close> stores exactly one new account; that account
  has tier trial and the configured trial follow limit; its \<open>created_at\<close> is the
  reading of the clock taken in \<open>create_user\<close>, and its \<open>trial_end_date\<close> is the
  later reading taken in \<open>set_trial_period\<close> plus the trial period in days. So
  \<open>trial_end_date\<close> equals \<open>created_at\<close> plus the trial period only when the two
  readings coincide.
\<close>

theorem register_user_trial_account:
  assumes "\<forall>u \<in> set (users db). id' u \<le> users_seq db"
    and "verify_code mail code db = (True, db1)"
    and "get_by_email db (Some mail) = None"
    and "get_by_username db uname = None"
  shows "\<exists>r db' u. register_user sec settings uname mail password code db = (r, db')
     \<and> users db' = users db @ [u]
     \<and> username u = uname \<and> email u = Some mail
     \<and> user_type u = TRIAL
     \<and> max_follows u = TRIAL_MAX_FOLLOWS settings
     \<and> created_at u = Some (clock db (ticks db + 4))
     \<and> trial_end_date u =
          Some (clock db (ticks db + 8) + timedelta_days (TRIAL_PERIOD_DAYS settings))"
  using assms by (rule register_user_stores)

theorem register_user_trial_account_witness:
  "\<exists>r db' u.
     register_user sec0 default_settings ''alice'' ''alice@x.com'' ''pw123456'' ''012345''
       world_code = (r, db')
     \<and> users db' = [u]
     \<and> username u = ''alice'' \<and> email u = Some ''alice@x.com''
     \<and> user_type u = TRIAL
     \<and> max_follows u = 5
     \<and> created_at u = Some 7000000
     \<and> trial_end_date u = Some 259211000000"
proof -
  have k: "\<forall>u \<in> set (users world_code). id' u \<le> users_seq world_code"
    by (simp add: world_code_fields)
  have e: "get_by_email world_code (Some ''alice@x.com'') = None"
    by (simp add: get_by_email_def world_code_fields)
  have n: "get_by_username world_code ''alice'' = None"
    by (simp add: get_by_username_def world_code_fields)
  from register_user_trial_account
    [OF k verify_code_world_code e n, of sec0 default_settings "''pw123456''"]
  show ?thesis
    by (simp add: world_code_fields default_settings_def timedelta_days_def)
qed

text \<open>
  C2 as stated fails: with a clock that advances by one second per reading, the account
  stored for a valid registration has a \<open>trial_end_date\<close> that is not its
  \<open>created_at\<close> plus the trial period.
\<close>

theorem register_user_trial_end_counterexample:
  "\<exists>r db' u c.
     register_user sec0 default_settings ''alice'' ''alice@x.com'' ''pw123456'' ''012345''
       world_code = (r, db')
     \<and> users db' = [u]
     \<and> created_at u = Some c
     \<and> trial_end_date u \<noteq> Some (c + timedelta_days (TRIAL_PERIOD_DAYS default_settings))"
proof -
  have k: "\<forall>u \<in> set (users world_code). id' u \<le> users_seq world_code"
    by (simp add: world_code_fields)
  have e: "get_by_email world_code (Some ''alice@x.com'') = None"
    by (simp add: get_by_email_def world_code_fields)
  have n: "get_by_username world_code ''alice'' = None"
    by (simp add: get_by_username_def world_code_fields)
  from register_user_stores
    [OF k verify_code_world_code e n, of sec0 default_settings "''pw123456''"]
  obtain r db' u where
    "register_user sec0 default_settings ''alice'' ''alice@x.com'' ''pw123456'' ''012345''
       world_code = (r, db')"
    "users db' = [u]" "created_at u = Some 7000000"
    "trial_end_date u = Some 259211000000"
    by (auto simp: world_code_fields default_settings_def timedelta_days_def)
  then show ?thesis
    by (auto simp: default_settings_def timedelta_days_def)
qed

section \<open>Device registration\<close>

text \<open>
  C4. On a system without an account for the device, two successive calls of
  \<open>auto_register_user\<close> with the same device id both end in the
  \<^verbatim>\<open>AttributeError\<close> that \<open>create_user\<close> raises on the \<^verbatim>\<open>dict\<close>; no account
  id is returned and no account is stored.
\<close>

theorem auto_register_user_new_device_raises:
  "auto_register_user sec0 default_settings (Some ''device-1'') (Some ''agent'') None world0
     = Some (Inl AttributeError, world0\<lparr>draws := 20\<rparr>)
   \<and> auto_register_user sec0 default_settings (Some ''device-1'') (Some ''agent'') None
       (world0\<lparr>draws := 20\<rparr>)
     = Some (Inl AttributeError, world0\<lparr>draws := 40\<rparr>)
   \<and> users (world0\<lparr>draws := 40\<rparr>) = []"
proof -
  have u: "users world0 = []"
    by (simp add: world0_def)
  have g: "generate_unique_username (world0\<lparr>draws := 20\<rparr>) =
      Some (''user_uvwxyz01'', world0\<lparr>draws := 28\<rparr>)"
    by (subst generate_unique_username.simps)
       (simp add: random_choices_def world0_def ascii_lowercase_def digits_def
         get_by_username_def upt_rec)
  have 1: "auto_register_user sec0 default_settings (Some ''device-1'') (Some ''agent'') None
      world0 = Some (Inl AttributeError, world0\<lparr>draws := 20\<rparr>)"
    by (simp add: auto_register_user_def get_by_device_id_def u
        generate_unique_username_world0 generate_random_password_def random_choices_def
        Let_def split_def)
  have 2: "auto_register_user sec0 default_settings (Some ''device-1'') (Some ''agent'') None
      (world0\<lparr>draws := 20\<rparr>) = Some (Inl AttributeError, world0\<lparr>draws := 40\<rparr>)"
    by (simp add: auto_register_user_def get_by_device_id_def u g
        generate_random_password_def random_choices_def Let_def split_def)
  from 1 2 u show ?thesis by simp
qed

section \<open>OAuth resolution\<close>



end
